theory Spec2Isabelle
  imports Complex_Main
begin

section \<open>Values, promises and the virtual clock\<close>

text \<open>
  The program is JavaScript for Node.js: promises over timers. The model runs it on a
  virtual clock in milliseconds. Failure rates and the values of \<open>Math.random()\<close> are reals.
  The other numbers of the program are integers: an \<open>int\<close> stands for a number of the program
  when it is a safe integer, at most \<open>2^53 - 1\<close> in magnitude; on these the arithmetic of the
  program is exact and a template literal renders a number by its decimal digits. The
  statements say so where such a number is computed with or printed.
\<close>

type_synonym time = int

text \<open>\<open>Number.isSafeInteger\<close>, on integers.\<close>

definition safe_integer :: "int \<Rightarrow> bool" where
  "safe_integer n = (\<bar>n\<bar> \<le> 9007199254740991)"

text \<open>
  A numeric literal of the source text denotes the double nearest to it: \<open>0.7\<close>, \<open>0.2\<close> and
  \<open>0.65\<close> denote these numbers.
\<close>

definition literal_0_7 :: real where
  "literal_0_7 = 3152519739159347 / 4503599627370496"

definition literal_0_2 :: real where
  "literal_0_2 = 3602879701896397 / 18014398509481984"

definition literal_0_65 :: real where
  "literal_0_65 = 5854679515581645 / 9007199254740992"

text \<open>
  What a promise of this program can be rejected with, or a function can throw: an \<open>Error\<close>
  object with its message, a \<open>TypeError\<close> object with its message (raised by the runtime when
  a property of \<open>undefined\<close> is read), or the value \<open>undefined\<close> itself.
\<close>

datatype reason = Undefined | Error string | TypeError string

text \<open>The object that \<open>fakeIO\<close> resolves with; the timestamp is the clock at completion.\<close>

record result =
  name :: string
  durationMs :: int
  timestamp :: time

datatype 'a settled = Fulfilled 'a | Rejected reason

text \<open>
  Every promise of the program settles; a promise is the instant at which it settles and what
  it settles with.
\<close>

record 'a promise =
  settledAt :: time
  settledWith :: "'a settled"

text \<open>
  \<open>setTimeout(callback, ms)\<close> of Node.js: a delay below 1 or above 2147483647 is set to 1
  (documented for \<open>setTimeout\<close> in the Node.js timers API).
\<close>

definition setTimeout_delay :: "int \<Rightarrow> int" where
  "setTimeout_delay ms = (if 1 \<le> ms \<and> ms \<le> 2147483647 then ms else 1)"

text \<open>Template literals render a safe integer by its decimal digits.\<close>

definition digit :: "nat \<Rightarrow> char" where
  "digit d = ''0123456789'' ! d"

fun digits :: "nat \<Rightarrow> string" where
  "digits n = (if n < 10 then [digit n] else digits (n div 10) @ [digit (n mod 10)])"

declare digits.simps [simp del]

definition number_toString :: "int \<Rightarrow> string" where
  "number_toString n = (if n < 0 then CHR ''-'' # digits (nat (- n)) else digits (nat n))"

section \<open>The utilities of index.js\<close>

text \<open>\<open>const sleep = (ms) => new Promise((resolve) => setTimeout(resolve, ms))\<close>, called at \<open>t\<close>.\<close>

definition sleep :: "int \<Rightarrow> time \<Rightarrow> unit promise" where
  "sleep ms t = \<lparr>settledAt = t + setTimeout_delay ms, settledWith = Fulfilled ()\<rparr>"

text \<open>
  \<open>fakeIO(name, ms, failRate = 0.0)\<close>, called at \<open>t\<close>; \<open>None\<close> is an omitted \<open>failRate\<close>.
  The argument \<open>r\<close> is the value that this call's \<open>Math.random()\<close> returns.
\<close>

definition fakeIO :: "string \<Rightarrow> int \<Rightarrow> real option \<Rightarrow> real \<Rightarrow> time \<Rightarrow> result promise" where
  "fakeIO nm ms failRate r t =
     (let failRate' = (case failRate of None \<Rightarrow> 0.0 | Some p \<Rightarrow> p);
          t' = settledAt (sleep ms t);
          shouldFail = r < failRate'
      in if shouldFail
         then \<lparr>settledAt = t',
               settledWith = Rejected (Error (''['' @ nm @ ''] failed (simulated)''))\<rparr>
         else \<lparr>settledAt = t',
               settledWith = Fulfilled \<lparr>name = nm, durationMs = ms, timestamp = t'\<rparr>\<rparr>)"

section \<open>The world: clock and trace\<close>

text \<open>What is handed to \<open>console.log\<close> and \<open>console.error\<close>.\<close>

datatype jsval =
    Str string
  | Num int
  | Res result
  | Names "string list"
  | Summary string "string list" string

text \<open>
  The trace lists, in order, what the running code does to its surroundings: the lines it
  prints, each call of the operation factory handed to \<open>retry\<close> (with the attempt number) and
  each \<open>sleep\<close> that \<open>retry\<close> has awaited (with the duration asked for and the time that the
  wait has lasted by the clock).
\<close>

datatype event =
    Console_log "jsval list"
  | Console_error "jsval list"
  | Call_fn int
  | Sleep int int

record world =
  clock :: time
  trace :: "event list"

text \<open>
  An awaited piece of asynchronous code: started in a world, it ends settled in a later world,
  whose clock is the instant of settling.
\<close>

type_synonym 'a task = "world \<Rightarrow> 'a settled \<times> world"

definition console_log :: "jsval list \<Rightarrow> world \<Rightarrow> world" where
  "console_log args w = w\<lparr>trace := trace w @ [Console_log args]\<rparr>"

definition console_error :: "jsval list \<Rightarrow> world \<Rightarrow> world" where
  "console_error args w = w\<lparr>trace := trace w @ [Console_error args]\<rparr>"

text \<open>\<open>await p\<close>: execution resumes when \<open>p\<close> has settled, at once if it already has.\<close>

definition await :: "'a promise \<Rightarrow> 'a task" where
  "await p w = (settledWith p, w\<lparr>clock := max (clock w) (settledAt p)\<rparr>)"

text \<open>\<open>error.message\<close>: reading a property of \<open>undefined\<close> throws a \<open>TypeError\<close>.\<close>

fun message :: "reason \<Rightarrow> reason + string" where
  "message (Error m) = Inr m"
| "message (TypeError m) = Inr m"
| "message Undefined = Inl (TypeError ''Cannot read properties of undefined (reading 'message')'')"

section \<open>Promise combinators of the runtime\<close>

text \<open>
  \<open>p.then(f)\<close>, \<open>p.catch(f)\<close> and \<open>p.finally(f)\<close>, for a chain that nothing else interleaves
  with: the chain so far is given as its settlement and the world at that instant. A handler
  that returns a promise hands its settlement on; a handler that throws rejects.
\<close>

definition Promise_then :: "'a settled \<times> world \<Rightarrow> ('a \<Rightarrow> 'b task) \<Rightarrow> 'b settled \<times> world" where
  "Promise_then p onFulfilled =
     (case p of
        (Fulfilled v, w) \<Rightarrow> onFulfilled v w
      | (Rejected e, w) \<Rightarrow> (Rejected e, w))"

definition Promise_catch :: "'a settled \<times> world \<Rightarrow> (reason \<Rightarrow> 'a task) \<Rightarrow> 'a settled \<times> world" where
  "Promise_catch p onRejected =
     (case p of
        (Fulfilled v, w) \<Rightarrow> (Fulfilled v, w)
      | (Rejected e, w) \<Rightarrow> onRejected e w)"

definition Promise_finally :: "'a settled \<times> world \<Rightarrow> unit task \<Rightarrow> 'a settled \<times> world" where
  "Promise_finally p onFinally =
     (case p of
        (s, w) \<Rightarrow>
          (case onFinally w of
             (Fulfilled u, w') \<Rightarrow> (s, w')
           | (Rejected e, w') \<Rightarrow> (Rejected e, w')))"

text \<open>
  The order in which the promises of an array, handed to a combinator at \<open>t\<close>, are seen to
  settle: by instant, and in array order among those of one instant (timers of one instant
  fire in the order they were set, and the runtime finishes all reactions to one before the
  next fires).
\<close>

definition completion_order :: "'a promise list \<Rightarrow> time \<Rightarrow> nat list" where
  "completion_order ps t = sort_key (\<lambda>i. max t (settledAt (ps ! i))) [0..<length ps]"

text \<open>
  \<open>Promise.race([p, ...ps])\<close>: settles as the first of its promises to settle. The array is
  given as head and tail: a race over no promise never settles.
\<close>

definition Promise_race :: "'a promise \<Rightarrow> 'a promise list \<Rightarrow> time \<Rightarrow> 'a promise" where
  "Promise_race p ps t =
     fold (\<lambda>q first. if max t (settledAt q) < max t (settledAt first) then q else first) ps p"

text \<open>
  \<open>Promise.allSettled(ps)\<close>: an array with one slot per promise, each slot written when its
  promise settles; the result is ready when the last one has settled.
\<close>

definition Promise_allSettled :: "'a promise list \<Rightarrow> time \<Rightarrow> 'a settled option list promise" where
  "Promise_allSettled ps t =
     \<lparr>settledAt = fold max (map settledAt ps) t,
      settledWith = Fulfilled
        (fold (\<lambda>i slots. slots[i := Some (settledWith (ps ! i))])
           (completion_order ps t) (replicate (length ps) None))\<rparr>"

text \<open>
  \<open>Promise.all(ps)\<close>: rejects as soon as one promise rejects, with its reason; otherwise
  fulfils, when the last one has, with the results in array order.
\<close>

fun first_rejection :: "'a promise list \<Rightarrow> (time \<times> reason) option" where
  "first_rejection [] = None"
| "first_rejection (p # ps) =
     (case settledWith p of
        Rejected e \<Rightarrow> Some (settledAt p, e)
      | Fulfilled v \<Rightarrow> first_rejection ps)"

fun fulfilled_results :: "'a promise list \<Rightarrow> 'a list" where
  "fulfilled_results [] = []"
| "fulfilled_results (p # ps) =
     (case settledWith p of
        Fulfilled v \<Rightarrow> v # fulfilled_results ps
      | Rejected e \<Rightarrow> fulfilled_results ps)"

definition Promise_all :: "'a promise list \<Rightarrow> time \<Rightarrow> 'a list promise" where
  "Promise_all ps t =
     (case first_rejection (map ((!) ps) (completion_order ps t)) of
        Some (t', e) \<Rightarrow> \<lparr>settledAt = max t t', settledWith = Rejected e\<rparr>
      | None \<Rightarrow>
          \<lparr>settledAt = fold max (map settledAt ps) t,
           settledWith = Fulfilled (fulfilled_results ps)\<rparr>)"

section \<open>The scenarios of index.js\<close>

definition demoPromiseChain :: "real \<Rightarrow> real \<Rightarrow> string task" where
  "demoPromiseChain r1 r2 w0 =
     (let w1 = console_log [Str ''\<newline>=== 1) Promise chain (then / catch / finally) ===''] w0
      in Promise_finally
           (Promise_catch
              (Promise_then
                 (Promise_then
                    (await (fakeIO ''step-1'' 300 None r1 (clock w1)) w1)
                    (\<lambda>result1 w.
                       let w' = console_log [Str ''success:'', Res result1] w
                       in await (fakeIO ''step-2'' 250 None r2 (clock w')) w'))
                 (\<lambda>result2 w.
                    let w' = console_log [Str ''success:'', Res result2] w
                    in (Fulfilled ''final result from promise chain'', w')))
              (\<lambda>error w.
                 case message error of
                   Inl e \<Rightarrow> (Rejected e, w)
                 | Inr m \<Rightarrow>
                     let w' = console_error [Str ''error in chain:'', Str m] w
                     in (Fulfilled ''chain recovered with fallback'', w')))
           (\<lambda>w. (Fulfilled (), console_log [Str ''finally: always executed''] w)))"

definition demoAsyncAwait :: "real \<Rightarrow> real \<Rightarrow> string task" where
  "demoAsyncAwait r1 r2 w0 =
     (let w1 = console_log [Str ''\<newline>=== 2) async / await (try / catch) ===''] w0;
          guarded =
            (case await (fakeIO ''await-1'' 200 None r1 (clock w1)) w1 of
               (Rejected error, w2) \<Rightarrow> (Rejected error, w2)
             | (Fulfilled result1, w2) \<Rightarrow>
                 (let w3 = console_log [Str ''success:'', Res result1] w2
                  in case await (fakeIO ''await-2'' 200 None r2 (clock w3)) w3 of
                       (Rejected error, w4) \<Rightarrow> (Rejected error, w4)
                     | (Fulfilled result2, w4) \<Rightarrow>
                         (let w5 = console_log [Str ''success:'', Res result2] w4
                          in (Fulfilled ''final result from async/await'', w5))))
      in case guarded of
           (Fulfilled s, w) \<Rightarrow> (Fulfilled s, w)
         | (Rejected error, w) \<Rightarrow>
             (case message error of
                Inl e \<Rightarrow> (Rejected e, w)
              | Inr m \<Rightarrow>
                  let w' = console_error [Str ''error in async/await:'', Str m] w
                  in (Fulfilled ''async/await fallback result'', w')))"

definition demoParallelAll :: "real \<Rightarrow> real \<Rightarrow> real \<Rightarrow> unit task" where
  "demoParallelAll r1 r2 r3 w0 =
     (let w1 = console_log [Str ''\<newline>=== 3) Parallel execution with Promise.all ===''] w0;
          start = clock w1;
          tasks = [fakeIO ''A'' 400 None r1 (clock w1),
                   fakeIO ''B'' 300 None r2 (clock w1),
                   fakeIO ''C'' 200 None r3 (clock w1)]
      in case await (Promise_all tasks (clock w1)) w1 of
           (Rejected e, w2) \<Rightarrow> (Rejected e, w2)
         | (Fulfilled results, w2) \<Rightarrow>
             (let w3 = console_log [Str ''results:'', Names (map name results)] w2;
                  w4 = console_log [Str ''elapsed(ms):'', Num (clock w3 - start)] w3
              in (Fulfilled (), w4)))"

text \<open>The \<open>for (const result of settledResults)\<close> loop of \<open>demoAllSettled\<close>.\<close>

fun demoAllSettled_loop :: "result settled option list \<Rightarrow> unit task" where
  "demoAllSettled_loop [] w = (Fulfilled (), w)"
| "demoAllSettled_loop (entry # rest) w =
     (case entry of
        None \<Rightarrow> (Rejected (TypeError ''Cannot read properties of undefined (reading 'status')''), w)
      | Some (Fulfilled v) \<Rightarrow>
          demoAllSettled_loop rest (console_log [Str ''fulfilled:'', Str (name v)] w)
      | Some (Rejected e) \<Rightarrow>
          (case message e of
             Inl e' \<Rightarrow> (Rejected e', w)
           | Inr m \<Rightarrow> demoAllSettled_loop rest (console_log [Str ''rejected:'', Str m] w)))"

definition demoAllSettled :: "real \<Rightarrow> real \<Rightarrow> real \<Rightarrow> unit task" where
  "demoAllSettled r1 r2 r3 w0 =
     (let w1 = console_log [Str ''\<newline>=== 4) Promise.allSettled (success + failure) ===''] w0;
          tasks = [fakeIO ''S1'' 200 (Some 0.0) r1 (clock w1),
                   fakeIO ''S2'' 250 (Some literal_0_7) r2 (clock w1),
                   fakeIO ''S3'' 150 (Some literal_0_2) r3 (clock w1)]
      in case await (Promise_allSettled tasks (clock w1)) w1 of
           (Rejected e, w2) \<Rightarrow> (Rejected e, w2)
         | (Fulfilled settledResults, w2) \<Rightarrow> demoAllSettled_loop settledResults w2)"

definition demoRace :: "real \<Rightarrow> real \<Rightarrow> unit task" where
  "demoRace r1 r2 w0 =
     (let w1 = console_log [Str ''\<newline>=== 5) Promise.race (first to finish) ===''] w0
      in case await (Promise_race (fakeIO ''slow'' 400 None r1 (clock w1))
                       [fakeIO ''fast'' 120 None r2 (clock w1)] (clock w1)) w1 of
           (Rejected e, w2) \<Rightarrow> (Rejected e, w2)
         | (Fulfilled winner, w2) \<Rightarrow>
             (Fulfilled (), console_log [Str ''winner:'', Str (name winner)] w2))"

text \<open>\<open>withTimeout(promise, ms)\<close>, called at \<open>t\<close>: the promise races a timer that rejects.\<close>

definition withTimeout :: "'a promise \<Rightarrow> int \<Rightarrow> time \<Rightarrow> 'a promise" where
  "withTimeout promise ms t =
     Promise_race promise
       [\<lparr>settledAt = t + setTimeout_delay ms,
         settledWith = Rejected (Error (''timeout after '' @ number_toString ms @ ''ms''))\<rparr>] t"

definition demoTimeout :: "real \<Rightarrow> unit task" where
  "demoTimeout r w0 =
     (let w1 = console_log [Str ''\<newline>=== 6) Timeout (Promise.race + timer) ===''] w0
      in case await (withTimeout (fakeIO ''operation'' 500 None r (clock w1)) 250 (clock w1)) w1 of
           (Fulfilled res, w2) \<Rightarrow> (Fulfilled (), console_log [Str ''success:'', Res res] w2)
         | (Rejected error, w2) \<Rightarrow>
             (case message error of
                Inl e \<Rightarrow> (Rejected e, w2)
              | Inr m \<Rightarrow> (Fulfilled (), console_error [Str ''timeout/error:'', Str m] w2)))"

subsection \<open>Retry with backoff\<close>

text \<open>
  The operation factory \<open>fn\<close>: called with the attempt number at some instant, it returns a
  promise (a factory that throws is one whose promise is rejected at that instant). The second
  argument of \<open>retry\<close> is an object whose two keys may each be missing, or is missing itself.
\<close>

type_synonym 'a factory = "int \<Rightarrow> time \<Rightarrow> 'a promise"

datatype retry_options = Options (opt_retries: "int option") (opt_delayMs: "int option")

definition observe :: "event \<Rightarrow> world \<Rightarrow> world" where
  "observe ev w = w\<lparr>trace := trace w @ [ev]\<rparr>"

text \<open>
  The \<open>for\<close> loop of \<open>retry\<close> and the \<open>throw\<close> after it, entered with the loop variable \<open>attempt\<close>.
  The counter and the product \<open>delayMs * attempt\<close> are the program's while they are safe
  integers.
\<close>

function retry_loop :: "'a factory \<Rightarrow> int \<Rightarrow> int \<Rightarrow> int \<Rightarrow> reason \<Rightarrow> 'a task" where
  "retry_loop fn retries delayMs attempt lastError w =
     (if attempt \<le> retries then
        (let w1 = observe (Call_fn attempt) w
         in case await (fn attempt (clock w1)) w1 of
              (Fulfilled v, w2) \<Rightarrow> (Fulfilled v, w2)
            | (Rejected error, w2) \<Rightarrow>
                (let waitTime = delayMs * attempt
                 in case message error of
                      Inl e \<Rightarrow> (Rejected e, w2)
                    | Inr m \<Rightarrow>
                        (let w3 = console_log
                                    [Str (''attempt '' @ number_toString attempt @ '' failed: '' @ m
                                          @ '' | waiting '' @ number_toString waitTime @ ''ms'')] w2;
                             w4 = snd (await (sleep waitTime (clock w3)) w3);
                             w5 = observe (Sleep waitTime (clock w4 - clock w3)) w4
                         in retry_loop fn retries delayMs (attempt + 1) error w5)))
      else (Rejected lastError, w))"
  by pat_completeness auto
termination
  by (relation "measure (\<lambda>(fn, retries, delayMs, attempt, lastError, w). nat (retries + 1 - attempt))")
    auto

declare retry_loop.simps [simp del]

text \<open>\<open>retry(fn, { retries = 3, delayMs = 200 } = {})\<close>; \<open>lastError\<close> starts as \<open>undefined\<close>.\<close>

definition retry :: "'a factory \<Rightarrow> retry_options option \<Rightarrow> 'a task" where
  "retry fn given w =
     (let opts = (case given of None \<Rightarrow> Options None None | Some g \<Rightarrow> g);
          retries = (case opt_retries opts of None \<Rightarrow> 3 | Some n \<Rightarrow> n);
          delayMs = (case opt_delayMs opts of None \<Rightarrow> 200 | Some n \<Rightarrow> n)
      in retry_loop fn retries delayMs 1 Undefined w)"

text \<open>\<open>rs attempt\<close> is what \<open>Math.random()\<close> returns in the operation of that attempt.\<close>

definition demoRetry :: "(int \<Rightarrow> real) \<Rightarrow> unit task" where
  "demoRetry rs w0 =
     (let w1 = console_log [Str ''\<newline>=== 7) Retry with backoff ===''] w0
      in case retry (\<lambda>attempt. fakeIO ''unstable'' 150 (Some literal_0_65) (rs attempt))
                (Some (Options (Some 4) (Some 150))) w1 of
           (Fulfilled res, w2) \<Rightarrow>
             (Fulfilled (), console_log [Str ''success after retry:'', Res res] w2)
         | (Rejected error, w2) \<Rightarrow>
             (case message error of
                Inl e \<Rightarrow> (Rejected e, w2)
              | Inr m \<Rightarrow> (Fulfilled (), console_error [Str ''failed after retries:'', Str m] w2)))"

subsection \<open>Pipeline and runner\<close>

record pipeline =
  fetched :: result
  processed :: "result list"
  saved :: result

definition demoPipeline :: "real \<Rightarrow> real \<Rightarrow> real \<Rightarrow> real \<Rightarrow> pipeline task" where
  "demoPipeline r1 r2 r3 r4 w0 =
     (let w1 = console_log [Str ''\<newline>=== 8) Pipeline: fetch -> process -> save ===''] w0
      in case await (fakeIO ''fetch-data'' 200 None r1 (clock w1)) w1 of
           (Rejected e, w2) \<Rightarrow> (Rejected e, w2)
         | (Fulfilled fetched', w2) \<Rightarrow>
             (let w3 = console_log [Str ''fetched:'', Str (name fetched')] w2
              in case await (Promise_all [fakeIO ''process-part-1'' 250 None r2 (clock w3),
                                          fakeIO ''process-part-2'' 300 None r3 (clock w3)]
                               (clock w3)) w3 of
                   (Rejected e, w4) \<Rightarrow> (Rejected e, w4)
                 | (Fulfilled parts, w4) \<Rightarrow>
                     (case parts of
                        part1 # part2 # others \<Rightarrow>
                          (let w5 = console_log
                                      [Str ''processed:'', Str (name part1), Str (name part2)] w4
                           in case await (fakeIO ''save'' 150 None r4 (clock w5)) w5 of
                                (Rejected e, w6) \<Rightarrow> (Rejected e, w6)
                              | (Fulfilled saved', w6) \<Rightarrow>
                                  (let w7 = console_log [Str ''saved:'', Str (name saved')] w6
                                   in (Fulfilled \<lparr>fetched = fetched',
                                                  processed = [part1, part2],
                                                  saved = saved'\<rparr>, w7)))
                      | _ \<Rightarrow>
                          (Rejected
                             (TypeError ''Cannot read properties of undefined (reading 'name')''),
                           w4))))"

text \<open>
  The runner. \<open>rnd i\<close> is what \<open>Math.random()\<close> returns in the \<open>i\<close>-th operation of the run,
  the operations counted in the order of the source text and the retried one once per attempt.
  A rejection that an \<open>await\<close> of the runner meets ends the runner, rejected.
\<close>

definition main :: "(nat \<Rightarrow> real) \<Rightarrow> unit task" where
  "main rnd w0 =
     (let w1 = console_log [Str ''POC: Promises & async/await - Node.js''] w0
      in case demoPromiseChain (rnd 0) (rnd 1) w1 of
        (Rejected e, w2) \<Rightarrow> (Rejected e, w2)
      | (Fulfilled chainResult, w2) \<Rightarrow>
     (let w3 = console_log [Str ''chain return:'', Str chainResult] w2
      in case demoAsyncAwait (rnd 2) (rnd 3) w3 of
        (Rejected e, w4) \<Rightarrow> (Rejected e, w4)
      | (Fulfilled asyncAwaitResult, w4) \<Rightarrow>
     (let w5 = console_log [Str ''async/await return:'', Str asyncAwaitResult] w4
      in case demoParallelAll (rnd 4) (rnd 5) (rnd 6) w5 of
        (Rejected e, w6) \<Rightarrow> (Rejected e, w6)
      | (Fulfilled u6, w6) \<Rightarrow>
     (case demoAllSettled (rnd 7) (rnd 8) (rnd 9) w6 of
        (Rejected e, w7) \<Rightarrow> (Rejected e, w7)
      | (Fulfilled u7, w7) \<Rightarrow>
     (case demoRace (rnd 10) (rnd 11) w7 of
        (Rejected e, w8) \<Rightarrow> (Rejected e, w8)
      | (Fulfilled u8, w8) \<Rightarrow>
     (case demoTimeout (rnd 12) w8 of
        (Rejected e, w9) \<Rightarrow> (Rejected e, w9)
      | (Fulfilled u9, w9) \<Rightarrow>
     (case demoRetry (\<lambda>attempt. rnd (12 + nat attempt)) w9 of
        (Rejected e, w10) \<Rightarrow> (Rejected e, w10)
      | (Fulfilled u10, w10) \<Rightarrow>
     (case demoPipeline (rnd 17) (rnd 18) (rnd 19) (rnd 20) w10 of
        (Rejected e, w11) \<Rightarrow> (Rejected e, w11)
      | (Fulfilled pipeline, w11) \<Rightarrow>
     (let w12 = console_log
                  [Str ''final pipeline result:'',
                   Summary (name (fetched pipeline))
                           (map name (processed pipeline))
                           (name (saved pipeline))] w11;
          w13 = console_log [Str (''\<newline>Done '' @ [CHR 0xC3, CHR 0xA2, CHR 0xC5, CHR 0x93, CHR 0xE2, CHR 0x80, CHR 0xA6])] w12
      in (Fulfilled (), w13))))))))))"

section \<open>The second source file (unnamed/part_000)\<close>

text \<open>
  The second file defines \<open>sleep\<close>, \<open>fakeIO\<close>, \<open>withTimeout\<close> and the first six scenarios
  again, and has neither \<open>retry\<close> nor the pipeline. Its definitions carry the suffix
  \<open>_part_000\<close>.
\<close>

definition sleep_part_000 :: "int \<Rightarrow> time \<Rightarrow> unit promise" where
  "sleep_part_000 ms t = \<lparr>settledAt = t + setTimeout_delay ms, settledWith = Fulfilled ()\<rparr>"

definition fakeIO_part_000 :: "string \<Rightarrow> int \<Rightarrow> real option \<Rightarrow> real \<Rightarrow> time \<Rightarrow> result promise" where
  "fakeIO_part_000 nm ms failRate r t =
     (let failRate' = (case failRate of None \<Rightarrow> 0.0 | Some p \<Rightarrow> p);
          t' = settledAt (sleep_part_000 ms t);
          shouldFail = r < failRate'
      in if shouldFail
         then \<lparr>settledAt = t',
               settledWith = Rejected (Error (''['' @ nm @ ''] failed (simulated)''))\<rparr>
         else \<lparr>settledAt = t',
               settledWith = Fulfilled \<lparr>name = nm, durationMs = ms, timestamp = t'\<rparr>\<rparr>)"

definition demoPromiseChain_part_000 :: "real \<Rightarrow> real \<Rightarrow> string task" where
  "demoPromiseChain_part_000 r1 r2 w0 =
     (let w1 = console_log [Str ''\<newline>=== 1) Promise chain (then / catch / finally) ===''] w0
      in Promise_finally
           (Promise_catch
              (Promise_then
                 (Promise_then
                    (await (fakeIO_part_000 ''step-1'' 300 None r1 (clock w1)) w1)
                    (\<lambda>result1 w.
                       let w' = console_log [Str ''success:'', Res result1] w
                       in await (fakeIO_part_000 ''step-2'' 250 None r2 (clock w')) w'))
                 (\<lambda>result2 w.
                    let w' = console_log [Str ''success:'', Res result2] w
                    in (Fulfilled ''final result from promise chain'', w')))
              (\<lambda>error w.
                 case message error of
                   Inl e \<Rightarrow> (Rejected e, w)
                 | Inr m \<Rightarrow>
                     let w' = console_error [Str ''error in chain:'', Str m] w
                     in (Fulfilled ''chain recovered with fallback'', w')))
           (\<lambda>w. (Fulfilled (), console_log [Str ''finally: always executed''] w)))"

definition demoAsyncAwait_part_000 :: "real \<Rightarrow> real \<Rightarrow> string task" where
  "demoAsyncAwait_part_000 r1 r2 w0 =
     (let w1 = console_log [Str ''\<newline>=== 2) async / await (try / catch) ===''] w0;
          guarded =
            (case await (fakeIO_part_000 ''await-1'' 200 None r1 (clock w1)) w1 of
               (Rejected error, w2) \<Rightarrow> (Rejected error, w2)
             | (Fulfilled result1, w2) \<Rightarrow>
                 (let w3 = console_log [Str ''success:'', Res result1] w2
                  in case await (fakeIO_part_000 ''await-2'' 200 None r2 (clock w3)) w3 of
                       (Rejected error, w4) \<Rightarrow> (Rejected error, w4)
                     | (Fulfilled result2, w4) \<Rightarrow>
                         (let w5 = console_log [Str ''success:'', Res result2] w4
                          in (Fulfilled ''final result from async/await'', w5))))
      in case guarded of
           (Fulfilled s, w) \<Rightarrow> (Fulfilled s, w)
         | (Rejected error, w) \<Rightarrow>
             (case message error of
                Inl e \<Rightarrow> (Rejected e, w)
              | Inr m \<Rightarrow>
                  let w' = console_error [Str ''error in async/await:'', Str m] w
                  in (Fulfilled ''async/await fallback result'', w')))"

definition demoParallelAll_part_000 :: "real \<Rightarrow> real \<Rightarrow> real \<Rightarrow> unit task" where
  "demoParallelAll_part_000 r1 r2 r3 w0 =
     (let w1 = console_log [Str ''\<newline>=== 3) Parallel execution with Promise.all ===''] w0;
          start = clock w1;
          tasks = [fakeIO_part_000 ''A'' 400 None r1 (clock w1),
                   fakeIO_part_000 ''B'' 300 None r2 (clock w1),
                   fakeIO_part_000 ''C'' 200 None r3 (clock w1)]
      in case await (Promise_all tasks (clock w1)) w1 of
           (Rejected e, w2) \<Rightarrow> (Rejected e, w2)
         | (Fulfilled results, w2) \<Rightarrow>
             (let w3 = console_log [Str ''results:'', Names (map name results)] w2;
                  w4 = console_log [Str ''elapsed(ms):'', Num (clock w3 - start)] w3
              in (Fulfilled (), w4)))"

fun demoAllSettled_loop_part_000 :: "result settled option list \<Rightarrow> unit task" where
  "demoAllSettled_loop_part_000 [] w = (Fulfilled (), w)"
| "demoAllSettled_loop_part_000 (entry # rest) w =
     (case entry of
        None \<Rightarrow> (Rejected (TypeError ''Cannot read properties of undefined (reading 'status')''), w)
      | Some (Fulfilled v) \<Rightarrow>
          demoAllSettled_loop_part_000 rest (console_log [Str ''fulfilled:'', Str (name v)] w)
      | Some (Rejected e) \<Rightarrow>
          (case message e of
             Inl e' \<Rightarrow> (Rejected e', w)
           | Inr m \<Rightarrow>
               demoAllSettled_loop_part_000 rest (console_log [Str ''rejected:'', Str m] w)))"

definition demoAllSettled_part_000 :: "real \<Rightarrow> real \<Rightarrow> real \<Rightarrow> unit task" where
  "demoAllSettled_part_000 r1 r2 r3 w0 =
     (let w1 = console_log [Str ''\<newline>=== 4) Promise.allSettled (success + failure) ===''] w0;
          tasks = [fakeIO_part_000 ''S1'' 200 (Some 0.0) r1 (clock w1),
                   fakeIO_part_000 ''S2'' 250 (Some literal_0_7) r2 (clock w1),
                   fakeIO_part_000 ''S3'' 150 (Some literal_0_2) r3 (clock w1)]
      in case await (Promise_allSettled tasks (clock w1)) w1 of
           (Rejected e, w2) \<Rightarrow> (Rejected e, w2)
         | (Fulfilled settledResults, w2) \<Rightarrow> demoAllSettled_loop_part_000 settledResults w2)"

definition demoRace_part_000 :: "real \<Rightarrow> real \<Rightarrow> unit task" where
  "demoRace_part_000 r1 r2 w0 =
     (let w1 = console_log [Str ''\<newline>=== 5) Promise.race (first to finish) ===''] w0
      in case await (Promise_race (fakeIO_part_000 ''slow'' 400 None r1 (clock w1))
                       [fakeIO_part_000 ''fast'' 120 None r2 (clock w1)] (clock w1)) w1 of
           (Rejected e, w2) \<Rightarrow> (Rejected e, w2)
         | (Fulfilled winner, w2) \<Rightarrow>
             (Fulfilled (), console_log [Str ''winner:'', Str (name winner)] w2))"

definition withTimeout_part_000 :: "'a promise \<Rightarrow> int \<Rightarrow> time \<Rightarrow> 'a promise" where
  "withTimeout_part_000 promise ms t =
     Promise_race promise
       [\<lparr>settledAt = t + setTimeout_delay ms,
         settledWith = Rejected (Error (''timeout after '' @ number_toString ms @ ''ms''))\<rparr>] t"

definition demoTimeout_part_000 :: "real \<Rightarrow> unit task" where
  "demoTimeout_part_000 r w0 =
     (let w1 = console_log [Str ''\<newline>=== 6) Timeout (Promise.race + timer) ===''] w0
      in case await (withTimeout_part_000 (fakeIO_part_000 ''operation'' 500 None r (clock w1)) 250 (clock w1)) w1 of
           (Fulfilled res, w2) \<Rightarrow> (Fulfilled (), console_log [Str ''success:'', Res res] w2)
         | (Rejected error, w2) \<Rightarrow>
             (case message error of
                Inl e \<Rightarrow> (Rejected e, w2)
              | Inr m \<Rightarrow> (Fulfilled (), console_error [Str ''timeout/error:'', Str m] w2)))"

text \<open>The runner of the second file: the first six scenarios.\<close>

definition main_part_000 :: "(nat \<Rightarrow> real) \<Rightarrow> unit task" where
  "main_part_000 rnd w0 =
     (let w1 = console_log [Str ''POC: Promises & async/await - Node.js''] w0
      in case demoPromiseChain_part_000 (rnd 0) (rnd 1) w1 of
        (Rejected e, w2) \<Rightarrow> (Rejected e, w2)
      | (Fulfilled chainResult, w2) \<Rightarrow>
     (let w3 = console_log [Str ''chain return:'', Str chainResult] w2
      in case demoAsyncAwait_part_000 (rnd 2) (rnd 3) w3 of
        (Rejected e, w4) \<Rightarrow> (Rejected e, w4)
      | (Fulfilled asyncAwaitResult, w4) \<Rightarrow>
     (let w5 = console_log [Str ''async/await return:'', Str asyncAwaitResult] w4
      in case demoParallelAll_part_000 (rnd 4) (rnd 5) (rnd 6) w5 of
        (Rejected e, w6) \<Rightarrow> (Rejected e, w6)
      | (Fulfilled u6, w6) \<Rightarrow>
     (case demoAllSettled_part_000 (rnd 7) (rnd 8) (rnd 9) w6 of
        (Rejected e, w7) \<Rightarrow> (Rejected e, w7)
      | (Fulfilled u7, w7) \<Rightarrow>
     (case demoRace_part_000 (rnd 10) (rnd 11) w7 of
        (Rejected e, w8) \<Rightarrow> (Rejected e, w8)
      | (Fulfilled u8, w8) \<Rightarrow>
     (case demoTimeout_part_000 (rnd 12) w8 of
        (Rejected e, w9) \<Rightarrow> (Rejected e, w9)
      | (Fulfilled u9, w9) \<Rightarrow>
     (let w10 = console_log [Str (''\<newline>Done '' @ [CHR 0xC3, CHR 0xA2, CHR 0xC5, CHR 0x93, CHR 0xE2, CHR 0x80, CHR 0xA6])] w9
      in (Fulfilled (), w10))))))))"

section \<open>Notions used in the statements\<close>

text \<open>
  The attempt numbers the factory was called with, and the durations of the backoff waits as
  asked for, in order.
\<close>

fun calls :: "event list \<Rightarrow> int list" where
  "calls [] = []"
| "calls (Call_fn a # es) = a # calls es"
| "calls (e # es) = calls es"

fun waits :: "event list \<Rightarrow> int list" where
  "waits [] = []"
| "waits (Sleep ms lasted # es) = ms # waits es"
| "waits (e # es) = waits es"



text \<open>How long each backoff wait has lasted, in order.\<close>

fun backoff_time :: "event list \<Rightarrow> int list" where
  "backoff_time [] = []"
| "backoff_time (Sleep ms lasted # es) = lasted # backoff_time es"
| "backoff_time (e # es) = backoff_time es"

fun fulfilled :: "'a settled \<Rightarrow> bool" where
  "fulfilled (Fulfilled v) = True"
| "fulfilled (Rejected e) = False"

text \<open>Every scenario opens by printing one line that starts with a line break and \<open>===\<close>.\<close>

fun is_banner :: "event \<Rightarrow> bool" where
  "is_banner (Console_log [Str s]) = (take 4 s = ''\<newline>==='')"
| "is_banner e = False"

text \<open>The line that \<open>demoAllSettled\<close> prints for an operation, from its failure rate and its draw.\<close>

definition settled_line :: "string \<Rightarrow> real \<Rightarrow> real \<Rightarrow> event" where
  "settled_line nm failRate r =
     (if r < failRate
      then Console_log [Str ''rejected:'', Str (''['' @ nm @ ''] failed (simulated)'')]
      else Console_log [Str ''fulfilled:'', Str nm])"

text \<open>Inputs of the examples: the world at process start, and two operation factories.\<close>

definition world0 :: world where
  "world0 = \<lparr>clock = 0, trace = []\<rparr>"

definition always_failing :: "result factory" where
  "always_failing attempt t = fakeIO ''unstable'' 150 (Some 1) (1 / 2) t"

definition succeeds_on_third :: "result factory" where
  "succeeds_on_third attempt t =
     fakeIO ''unstable'' 150 (Some (if attempt < 3 then 1 else 0)) (1 / 2) t"


section \<open>Basic facts\<close>

lemma setTimeout_delay_pos: "1 \<le> setTimeout_delay ms"
  by (simp add: setTimeout_delay_def)

lemma setTimeout_delay_in_range:
  "1 \<le> ms \<Longrightarrow> ms \<le> 2147483647 \<Longrightarrow> setTimeout_delay ms = ms"
  by (simp add: setTimeout_delay_def)

lemma fakeIO_settledAt: "settledAt (fakeIO nm ms fr r t) = t + setTimeout_delay ms"
  by (simp add: fakeIO_def sleep_def Let_def)

lemma fakeIO_fulfils:
  assumes "0 \<le> r"
  shows "fakeIO nm ms None r t =
           \<lparr>settledAt = t + setTimeout_delay ms,
            settledWith = Fulfilled \<lparr>name = nm, durationMs = ms,
                                     timestamp = t + setTimeout_delay ms\<rparr>\<rparr>"
    and "fakeIO nm ms (Some 0) r t =
           \<lparr>settledAt = t + setTimeout_delay ms,
            settledWith = Fulfilled \<lparr>name = nm, durationMs = ms,
                                     timestamp = t + setTimeout_delay ms\<rparr>\<rparr>"
  using assms by (simp_all add: fakeIO_def sleep_def Let_def)

lemma fakeIO_rejects_with_Error:
  "settledWith (fakeIO nm ms fr r t) = Rejected e \<Longrightarrow> \<exists>m. e = Error m"
  by (auto simp: fakeIO_def Let_def split: if_splits)






section \<open>The simulated operation\<close>

text \<open>
  Claim C5. \<open>Math.random()\<close> returns a number \<open>r\<close> with \<open>0 \<le> r < 1\<close>. For every name, duration
  and starting instant: with failure rate 0, given or left to its default, \<open>fakeIO\<close> fulfils
  with the given name and a \<open>durationMs\<close> equal to the requested duration; with failure rate 1
  it rejects with the message \<open>[<name>] failed (simulated)\<close>, which contains the name; and with
  any failure rate it rejects exactly when the random draw is below the failure rate.
\<close>

theorem fakeIO_fails_iff_draw_below_failRate:
  assumes "0 \<le> r" and "r < 1"
  shows "settledWith (fakeIO nm ms (Some 0) r t) =
           Fulfilled \<lparr>name = nm, durationMs = ms, timestamp = t + setTimeout_delay ms\<rparr>
       \<and> settledWith (fakeIO nm ms None r t) =
           Fulfilled \<lparr>name = nm, durationMs = ms, timestamp = t + setTimeout_delay ms\<rparr>
       \<and> settledWith (fakeIO nm ms (Some 1) r t) =
           Rejected (Error (''['' @ nm @ ''] failed (simulated)''))
       \<and> ((\<exists>e. settledWith (fakeIO nm ms (Some p) r t) = Rejected e) \<longleftrightarrow> r < p)
       \<and> ((\<exists>v. settledWith (fakeIO nm ms (Some p) r t) = Fulfilled v) \<longleftrightarrow> \<not> r < p)"
  using assms by (simp add: fakeIO_def sleep_def Let_def)

theorem fakeIO_fails_iff_draw_below_failRate_witness:
  "(0::real) \<le> 1 / 2 \<and> (1 / 2 :: real) < 1
   \<and> settledWith (fakeIO ''S1'' 200 (Some 0) (1 / 2) 0) =
       Fulfilled \<lparr>name = ''S1'', durationMs = 200, timestamp = 200\<rparr>
   \<and> settledWith (fakeIO ''S1'' 200 (Some 1) (1 / 2) 0) =
       Rejected (Error ''[S1] failed (simulated)'')"
proof -
  have lo: "(0::real) \<le> 1 / 2" and hi: "(1 / 2 :: real) < 1"
    by simp_all
  show ?thesis
    using lo hi fakeIO_fails_iff_draw_below_failRate [OF lo hi, of "''S1''" 200 0 0]
    by (simp add: setTimeout_delay_def)
qed

section \<open>The two source files\<close>

lemma sleep_same: "sleep_part_000 = sleep"
  by (intro ext) (simp add: sleep_part_000_def sleep_def)

lemma fakeIO_same: "fakeIO_part_000 = fakeIO"
  by (intro ext) (simp add: fakeIO_part_000_def fakeIO_def sleep_same)

lemma withTimeout_same: "withTimeout_part_000 = withTimeout"
  by (intro ext) (simp add: withTimeout_part_000_def withTimeout_def)

lemma demoPromiseChain_same: "demoPromiseChain_part_000 = demoPromiseChain"
  unfolding fun_eq_iff demoPromiseChain_part_000_def demoPromiseChain_def fakeIO_same
  by (intro allI refl)

lemma demoAsyncAwait_same: "demoAsyncAwait_part_000 = demoAsyncAwait"
  unfolding fun_eq_iff demoAsyncAwait_part_000_def demoAsyncAwait_def fakeIO_same
  by (intro allI refl)

lemma demoParallelAll_same: "demoParallelAll_part_000 = demoParallelAll"
  unfolding fun_eq_iff demoParallelAll_part_000_def demoParallelAll_def fakeIO_same
  by (intro allI refl)

lemma demoAllSettled_loop_same: "demoAllSettled_loop_part_000 = demoAllSettled_loop"
proof (intro ext)
  fix slots w
  show "demoAllSettled_loop_part_000 slots w = demoAllSettled_loop slots w"
    by (induction slots arbitrary: w) (simp_all split: option.splits settled.splits sum.splits)
qed

lemma demoAllSettled_same: "demoAllSettled_part_000 = demoAllSettled"
  unfolding fun_eq_iff demoAllSettled_part_000_def demoAllSettled_def fakeIO_same
    demoAllSettled_loop_same
  by (intro allI refl)

lemma demoRace_same: "demoRace_part_000 = demoRace"
  unfolding fun_eq_iff demoRace_part_000_def demoRace_def fakeIO_same
  by (intro allI refl)

lemma demoTimeout_same: "demoTimeout_part_000 = demoTimeout"
  unfolding fun_eq_iff demoTimeout_part_000_def demoTimeout_def fakeIO_same withTimeout_same
  by (intro allI refl)

text \<open>
  Claim C9. Each of the nine functions that both source files define (\<open>sleep\<close>, \<open>fakeIO\<close>,
  \<open>withTimeout\<close> and the chain, async/await, parallel-all, settle-all, race and timeout
  scenarios) is the same function in both files: on the same arguments, random draws and
  world, the two definitions give the same settlement and the same world.
\<close>

theorem two_files_define_the_same_functions:
  "sleep_part_000 = sleep
   \<and> fakeIO_part_000 = fakeIO
   \<and> withTimeout_part_000 = withTimeout
   \<and> demoPromiseChain_part_000 = demoPromiseChain
   \<and> demoAsyncAwait_part_000 = demoAsyncAwait
   \<and> demoParallelAll_part_000 = demoParallelAll
   \<and> demoAllSettled_part_000 = demoAllSettled
   \<and> demoRace_part_000 = demoRace
   \<and> demoTimeout_part_000 = demoTimeout"
  by (simp add: sleep_same fakeIO_same withTimeout_same demoPromiseChain_same
      demoAsyncAwait_same demoParallelAll_same demoAllSettled_same demoRace_same
      demoTimeout_same)

section \<open>The chain scenario\<close>

text \<open>
  Claim C6. In \<open>demoPromiseChain\<close> a step fails exactly when its draw is below its failure
  rate, which is 0 for both steps. For all draws \<open>r1\<close> and \<open>r2\<close> (any real numbers, so that
  failing steps are covered): the scenario always fulfils, never rejects; it returns
  \<open>final result from promise chain\<close> when both steps succeed and \<open>chain recovered with fallback\<close>
  when a step fails; and in every case the line of the \<open>finally\<close> handler is printed exactly
  once, as the last line.
\<close>

theorem demoPromiseChain_recovers_and_finalizes:
  "fst (demoPromiseChain r1 r2 w) =
     Fulfilled (if r1 < 0 \<or> r2 < 0 then ''chain recovered with fallback''
                else ''final result from promise chain'')
   \<and> last (trace (snd (demoPromiseChain r1 r2 w))) = Console_log [Str ''finally: always executed'']
   \<and> length (filter (\<lambda>e. e = Console_log [Str ''finally: always executed''])
        (trace (snd (demoPromiseChain r1 r2 w))))
      = Suc (length (filter (\<lambda>e. e = Console_log [Str ''finally: always executed'']) (trace w)))"
  by (simp add: demoPromiseChain_def Promise_finally_def Promise_catch_def Promise_then_def
      await_def fakeIO_def sleep_def console_log_def console_error_def Let_def)

section \<open>The timeout wrapper\<close>

text \<open>
  For any promise: the wrapper rejects with the timeout message when the timer fires before
  the promise settles, and settles as the promise does when the promise settles first.
\<close>

lemma withTimeout_any_promise:
  "(t + setTimeout_delay ms < settledAt p \<longrightarrow>
      withTimeout p ms t =
        \<lparr>settledAt = t + setTimeout_delay ms,
         settledWith = Rejected (Error (''timeout after '' @ number_toString ms @ ''ms''))\<rparr>)
   \<and> (settledAt p < t + setTimeout_delay ms \<longrightarrow> withTimeout p ms t = p)"
  using setTimeout_delay_pos [of ms]
  by (auto simp: withTimeout_def Promise_race_def max_def)

text \<open>
  Claim C3, amended. The operation is \<open>fakeIO\<close> started at the instant at which \<open>withTimeout\<close>
  is called, and the timeout \<open>ms\<close> is a safe integer. The runtime runs a timer whose delay is
  below 1 or above 2147483647 with a delay of 1; let the delays of the operation and of the
  timeout after this adjustment be their effective delays. If the effective delay of the
  operation exceeds that of the timeout, the wrapper rejects, when the timeout fires, with the
  message \<open>timeout after <ms>ms\<close>, where \<open><ms>\<close> is the timeout as given, in decimal digits; if
  it is less, the wrapper settles as the operation does, with its result or its error. For
  delays from 1 to 2147483647 the effective delays are the given ones.
\<close>

theorem withTimeout_settles_with_first:
  assumes "safe_integer ms"
  shows "(setTimeout_delay ms < setTimeout_delay d \<longrightarrow>
      withTimeout (fakeIO nm d fr r t) ms t =
        \<lparr>settledAt = t + setTimeout_delay ms,
         settledWith = Rejected (Error (''timeout after '' @ number_toString ms @ ''ms''))\<rparr>)
   \<and> (setTimeout_delay d < setTimeout_delay ms \<longrightarrow>
      withTimeout (fakeIO nm d fr r t) ms t = fakeIO nm d fr r t)
   \<and> (1 \<le> d \<and> d \<le> 2147483647 \<and> 1 \<le> ms \<and> ms \<le> 2147483647 \<longrightarrow>
        (ms < d \<longrightarrow>
           withTimeout (fakeIO nm d fr r t) ms t =
             \<lparr>settledAt = t + ms,
              settledWith = Rejected (Error (''timeout after '' @ number_toString ms @ ''ms''))\<rparr>)
      \<and> (d < ms \<longrightarrow> withTimeout (fakeIO nm d fr r t) ms t = fakeIO nm d fr r t))"
proof -
  have general:
    "(setTimeout_delay ms < setTimeout_delay d \<longrightarrow>
        withTimeout (fakeIO nm d fr r t) ms t =
          \<lparr>settledAt = t + setTimeout_delay ms,
           settledWith = Rejected (Error (''timeout after '' @ number_toString ms @ ''ms''))\<rparr>)
     \<and> (setTimeout_delay d < setTimeout_delay ms \<longrightarrow>
        withTimeout (fakeIO nm d fr r t) ms t = fakeIO nm d fr r t)"
    using withTimeout_any_promise [of t ms "fakeIO nm d fr r t"]
    by (simp add: fakeIO_settledAt)
  then show ?thesis
    by (simp add: setTimeout_delay_in_range)
qed

theorem withTimeout_settles_with_first_witness:
  "withTimeout (fakeIO ''operation'' 500 None (1 / 2) 0) 250 0 =
     \<lparr>settledAt = 250, settledWith = Rejected (Error ''timeout after 250ms'')\<rparr>
   \<and> withTimeout (fakeIO ''operation'' 100 None (1 / 2) 0) 250 0 =
       fakeIO ''operation'' 100 None (1 / 2) 0"
proof -
  have safe: "safe_integer 250"
    by (simp add: safe_integer_def)
  have late: "setTimeout_delay 250 < setTimeout_delay 500"
    and early: "setTimeout_delay 100 < setTimeout_delay 250"
    by (simp_all add: setTimeout_delay_def)
  show ?thesis
    using late early
      withTimeout_settles_with_first [OF safe, of 500 "''operation''" None "1 / 2" 0]
      withTimeout_settles_with_first [OF safe, of 100 "''operation''" None "1 / 2" 0]
    by (simp add: setTimeout_delay_def number_toString_def digits.simps digit_def)
qed

text \<open>
  The claim as first stated fails for a timeout above 2147483647: a 500 ms operation is less
  than a timeout of 2147483648 ms, yet the wrapper rejects with the timeout message, after
  1 ms.
\<close>

theorem withTimeout_large_timeout_counterexample:
  "(500::int) < 2147483648
   \<and> withTimeout (fakeIO ''operation'' 500 None (1 / 2) 0) 2147483648 0 =
       \<lparr>settledAt = 1, settledWith = Rejected (Error ''timeout after 2147483648ms'')\<rparr>
   \<and> withTimeout (fakeIO ''operation'' 500 None (1 / 2) 0) 2147483648 0
       \<noteq> fakeIO ''operation'' 500 None (1 / 2) 0"
  by (simp add: withTimeout_def Promise_race_def fakeIO_def sleep_def setTimeout_delay_def Let_def
      number_toString_def digits.simps digit_def)

lemma demoTimeout_run:
  "demoTimeout r w =
     (Fulfilled (),
      w\<lparr>trace := trace w @
         [Console_log [Str ''\<newline>=== 6) Timeout (Promise.race + timer) ===''],
          Console_error [Str ''timeout/error:'', Str ''timeout after 250ms'']],
        clock := clock w + 250\<rparr>)"
  by (simp add: demoTimeout_def withTimeout_def Promise_race_def await_def fakeIO_settledAt
      setTimeout_delay_def console_log_def console_error_def Let_def number_toString_def
      digits.simps digit_def)

section \<open>The race\<close>

lemma demoRace_run:
  assumes "0 \<le> r1" and "0 \<le> r2"
  shows "demoRace r1 r2 w =
           (Fulfilled (),
            w\<lparr>trace := trace w @
               [Console_log [Str ''\<newline>=== 5) Promise.race (first to finish) ===''],
                Console_log [Str ''winner:'', Str ''fast'']],
              clock := clock w + 120\<rparr>)"
  using assms
  by (simp add: demoRace_def Promise_race_def await_def fakeIO_fulfils setTimeout_delay_def
      console_log_def Let_def)

text \<open>
  Claim C8, amended. Two operations with failure rate 0 are started at one instant and handed
  to \<open>Promise.race\<close>. The runtime runs a timer whose delay is below 1 or above 2147483647 with
  a delay of 1; let the delay of an operation after this adjustment be its effective delay.
  When the effective delays differ, the race settles as the operation with the shorter
  effective delay does, so with its result. For differing delays from 1 to 2147483647 this is
  the operation with the shorter delay. In \<open>demoRace\<close>, which races \<open>slow\<close> (400 ms) against
  \<open>fast\<close> (120 ms), the winner is \<open>fast\<close>.
\<close>

theorem race_settles_with_shorter_delay:
  assumes "0 \<le> r1" and "0 \<le> r2"
  shows "(setTimeout_delay d1 < setTimeout_delay d2 \<longrightarrow>
           Promise_race (fakeIO n1 d1 (Some 0) r1 t) [fakeIO n2 d2 (Some 0) r2 t] t
             = fakeIO n1 d1 (Some 0) r1 t)
       \<and> (setTimeout_delay d2 < setTimeout_delay d1 \<longrightarrow>
           Promise_race (fakeIO n1 d1 (Some 0) r1 t) [fakeIO n2 d2 (Some 0) r2 t] t
             = fakeIO n2 d2 (Some 0) r2 t)
       \<and> (1 \<le> d1 \<and> d1 \<le> 2147483647 \<and> 1 \<le> d2 \<and> d2 \<le> 2147483647 \<longrightarrow>
            (d1 < d2 \<longrightarrow>
               settledWith (Promise_race (fakeIO n1 d1 (Some 0) r1 t) [fakeIO n2 d2 (Some 0) r2 t] t)
                 = Fulfilled \<lparr>name = n1, durationMs = d1, timestamp = t + d1\<rparr>)
          \<and> (d2 < d1 \<longrightarrow>
               settledWith (Promise_race (fakeIO n1 d1 (Some 0) r1 t) [fakeIO n2 d2 (Some 0) r2 t] t)
                 = Fulfilled \<lparr>name = n2, durationMs = d2, timestamp = t + d2\<rparr>))
       \<and> demoRace r1 r2 w =
           (Fulfilled (),
            w\<lparr>trace := trace w @
               [Console_log [Str ''\<newline>=== 5) Promise.race (first to finish) ===''],
                Console_log [Str ''winner:'', Str ''fast'']],
              clock := clock w + 120\<rparr>)"
proof -
  have general:
    "(setTimeout_delay d1 < setTimeout_delay d2 \<longrightarrow>
        Promise_race (fakeIO n1 d1 (Some 0) r1 t) [fakeIO n2 d2 (Some 0) r2 t] t
          = fakeIO n1 d1 (Some 0) r1 t)
     \<and> (setTimeout_delay d2 < setTimeout_delay d1 \<longrightarrow>
        Promise_race (fakeIO n1 d1 (Some 0) r1 t) [fakeIO n2 d2 (Some 0) r2 t] t
          = fakeIO n2 d2 (Some 0) r2 t)"
    using setTimeout_delay_pos [of d1] setTimeout_delay_pos [of d2]
    by (simp add: Promise_race_def fakeIO_settledAt)
  have in_range:
    "1 \<le> d1 \<and> d1 \<le> 2147483647 \<and> 1 \<le> d2 \<and> d2 \<le> 2147483647 \<longrightarrow>
       (d1 < d2 \<longrightarrow>
          settledWith (Promise_race (fakeIO n1 d1 (Some 0) r1 t) [fakeIO n2 d2 (Some 0) r2 t] t)
            = Fulfilled \<lparr>name = n1, durationMs = d1, timestamp = t + d1\<rparr>)
     \<and> (d2 < d1 \<longrightarrow>
          settledWith (Promise_race (fakeIO n1 d1 (Some 0) r1 t) [fakeIO n2 d2 (Some 0) r2 t] t)
            = Fulfilled \<lparr>name = n2, durationMs = d2, timestamp = t + d2\<rparr>)"
    using general assms by (auto simp: setTimeout_delay_in_range fakeIO_fulfils)
  from general in_range demoRace_run [OF assms] show ?thesis
    by blast
qed

theorem race_settles_with_shorter_delay_witness:
  "settledWith (Promise_race (fakeIO ''slow'' 400 (Some 0) (1 / 2) 0)
                  [fakeIO ''fast'' 120 (Some 0) (1 / 2) 0] 0)
     = Fulfilled \<lparr>name = ''fast'', durationMs = 120, timestamp = 120\<rparr>
   \<and> demoRace (1 / 2) (1 / 2) world0 =
       (Fulfilled (),
        \<lparr>clock = 120,
         trace = [Console_log [Str ''\<newline>=== 5) Promise.race (first to finish) ===''],
                  Console_log [Str ''winner:'', Str ''fast'']]\<rparr>)"
proof -
  have draw: "(0::real) \<le> 1 / 2"
    by simp
  show ?thesis
    using race_settles_with_shorter_delay [OF draw draw, of 400 120 "''slow''" 0 "''fast''" world0]
    by (simp add: world0_def)
qed

text \<open>
  The claim as first stated fails for a delay above 2147483647: of the delays 2147483648 and
  10, the second is the shorter, yet the race is won by the first operation, after 1 ms.
\<close>

theorem race_large_delay_counterexample:
  "(10::int) < 2147483648
   \<and> settledWith (Promise_race (fakeIO ''a'' 2147483648 (Some 0) (1 / 2) 0)
                    [fakeIO ''b'' 10 (Some 0) (1 / 2) 0] 0)
       = Fulfilled \<lparr>name = ''a'', durationMs = 2147483648, timestamp = 1\<rparr>
   \<and> settledWith (fakeIO ''b'' 10 (Some 0) (1 / 2) 0)
       = Fulfilled \<lparr>name = ''b'', durationMs = 10, timestamp = 10\<rparr>"
  by (simp add: Promise_race_def fakeIO_def sleep_def setTimeout_delay_def Let_def)

section \<open>Settle-all\<close>

lemma set_completion_order: "set (completion_order ps t) = {0..<length ps}"
  by (simp add: completion_order_def)

lemma length_fold_slots:
  "length (fold (\<lambda>i slots. slots[i := f i]) js slots) = length slots"
  by (induction js arbitrary: slots) simp_all

lemma nth_fold_slots:
  "j < length slots \<Longrightarrow>
   fold (\<lambda>i slots. slots[i := f i]) js slots ! j = (if j \<in> set js then f j else slots ! j)"
proof (induction js arbitrary: slots)
  case Nil
  then show ?case by simp
next
  case (Cons i js)
  have "fold (\<lambda>i slots. slots[i := f i]) (i # js) slots ! j
        = fold (\<lambda>i slots. slots[i := f i]) js (slots[i := f i]) ! j"
    by simp
  also have "\<dots> = (if j \<in> set js then f j else slots[i := f i] ! j)"
    using Cons.prems by (intro Cons.IH) simp
  also have "\<dots> = (if j \<in> set (i # js) then f j else slots ! j)"
    using Cons.prems by (auto simp: nth_list_update)
  finally show ?case .
qed

text \<open>Whatever the order of completion, every slot is written, with its own promise's outcome.\<close>

lemma Promise_allSettled_slots:
  "settledWith (Promise_allSettled ps t) = Fulfilled (map (\<lambda>p. Some (settledWith p)) ps)"
proof -
  let ?slots = "fold (\<lambda>i slots. slots[i := Some (settledWith (ps ! i))])
                  (completion_order ps t) (replicate (length ps) None)"
  have "?slots = map (\<lambda>p. Some (settledWith p)) ps"
  proof (rule nth_equalityI)
    show "length ?slots = length (map (\<lambda>p. Some (settledWith p)) ps)"
      by (simp add: length_fold_slots)
  next
    fix j
    assume "j < length ?slots"
    then have j: "j < length ps"
      by (simp add: length_fold_slots)
    then have "?slots ! j = Some (settledWith (ps ! j))"
      by (simp add: nth_fold_slots set_completion_order)
    with j show "?slots ! j = map (\<lambda>p. Some (settledWith p)) ps ! j"
      by simp
  qed
  then show ?thesis
    by (simp add: Promise_allSettled_def)
qed

lemma Promise_allSettled_settledAt:
  "settledAt (Promise_allSettled ps t) = fold max (map settledAt ps) t"
  by (simp add: Promise_allSettled_def)

lemma demoAllSettled_run:
  "demoAllSettled r1 r2 r3 w =
     (Fulfilled (),
      w\<lparr>trace := trace w @
         [Console_log [Str ''\<newline>=== 4) Promise.allSettled (success + failure) ===''],
          settled_line ''S1'' 0 r1, settled_line ''S2'' literal_0_7 r2, settled_line ''S3'' literal_0_2 r3],
        clock := clock w + 250\<rparr>)"
  by (simp add: demoAllSettled_def await_def Promise_allSettled_slots Promise_allSettled_settledAt
      fakeIO_settledAt setTimeout_delay_def console_log_def settled_line_def Let_def)
    (simp add: fakeIO_def Let_def console_log_def)

text \<open>
  Claim C4. For every array of promises, whichever settle first, \<open>Promise.allSettled\<close> fulfils
  with an array that has one entry per promise, in the order of the array, each entry being
  the outcome of its own promise: \<open>Fulfilled\<close> with the result exactly when the operation
  succeeded, \<open>Rejected\<close> with the error exactly when it failed. For all draws, \<open>demoAllSettled\<close>
  fulfils after printing one line per operation, in the order \<open>S1\<close>, \<open>S2\<close>, \<open>S3\<close> in which they
  were submitted (\<open>S3\<close> completes first), each line \<open>rejected:\<close> exactly when the draw of that
  operation is below its failure rate and \<open>fulfilled:\<close> otherwise; the failure rates are 0 and
  the numbers that the literals \<open>0.7\<close> and \<open>0.2\<close> denote.
\<close>

theorem allSettled_keeps_order_and_outcomes:
  "settledWith (Promise_allSettled ps t) = Fulfilled (map (\<lambda>p. Some (settledWith p)) ps)
   \<and> demoAllSettled r1 r2 r3 w =
       (Fulfilled (),
        w\<lparr>trace := trace w @
           [Console_log [Str ''\<newline>=== 4) Promise.allSettled (success + failure) ===''],
            settled_line ''S1'' 0 r1, settled_line ''S2'' literal_0_7 r2, settled_line ''S3'' literal_0_2 r3],
          clock := clock w + 250\<rparr>)"
  by (simp add: Promise_allSettled_slots demoAllSettled_run)

section \<open>Retry with backoff\<close>

lemma retry_loop_exhausted:
  "retries < attempt \<Longrightarrow> retry_loop fn retries delayMs attempt le w = (Rejected le, w)"
  by (simp add: retry_loop.simps)

lemma retry_loop_fulfilled:
  assumes "attempt \<le> retries" and "settledWith (fn attempt (clock w)) = Fulfilled v"
  shows "retry_loop fn retries delayMs attempt le w =
           (Fulfilled v,
            w\<lparr>trace := trace w @ [Call_fn attempt],
              clock := max (clock w) (settledAt (fn attempt (clock w)))\<rparr>)"
  using assms by (subst retry_loop.simps) (simp add: observe_def await_def)

lemma retry_loop_rejected:
  assumes "attempt \<le> retries" and "settledWith (fn attempt (clock w)) = Rejected (Error m)"
  shows "retry_loop fn retries delayMs attempt le w =
           retry_loop fn retries delayMs (attempt + 1) (Error m)
             (w\<lparr>clock := max (clock w) (settledAt (fn attempt (clock w)))
                      + setTimeout_delay (delayMs * attempt),
                trace := trace w @
                [Call_fn attempt,
                 Console_log [Str (''attempt '' @ number_toString attempt @ '' failed: '' @ m
                                   @ '' | waiting '' @ number_toString (delayMs * attempt) @ ''ms'')],
                 Sleep (delayMs * attempt) (setTimeout_delay (delayMs * attempt))]\<rparr>)"
  using assms setTimeout_delay_pos [of "delayMs * attempt"]
  by (subst retry_loop.simps)
    (simp add: observe_def await_def console_log_def sleep_def Let_def)







text \<open>
  Claim C10. When \<open>retry\<close> is called with \<open>retries\<close> below 1, the factory is never called, no
  backoff wait is incurred and no time passes: the world is left as it was, and \<open>retry\<close>
  rejects with \<open>undefined\<close>, which is not an \<open>Error\<close> object.
\<close>

theorem retry_without_attempts:
  assumes "retries < 1"
  shows "retry fn (Some (Options (Some retries) delayMs)) w = (Rejected Undefined, w)
       \<and> calls (trace (snd (retry fn (Some (Options (Some retries) delayMs)) w))) = calls (trace w)
       \<and> waits (trace (snd (retry fn (Some (Options (Some retries) delayMs)) w))) = waits (trace w)
       \<and> Undefined \<notin> range Error"
  using assms by (auto simp: retry_def retry_loop_exhausted)

theorem retry_without_attempts_witness:
  "retry always_failing (Some (Options (Some 0) (Some 200))) world0 = (Rejected Undefined, world0)"
proof -
  have none: "(0::int) < 1"
    by simp
  show ?thesis
    using retry_without_attempts [OF none, of always_failing "Some 200" world0]
    by simp
qed

lemma succeeds_on_third_rejects:
  "a < 3 \<Longrightarrow>
   settledWith (succeeds_on_third a t) = Rejected (Error ''[unstable] failed (simulated)'')"
  by (simp add: succeeds_on_third_def fakeIO_def Let_def)

lemma succeeds_on_third_settledAt: "settledAt (succeeds_on_third a t) = t + 150"
  by (simp add: succeeds_on_third_def fakeIO_settledAt setTimeout_delay_def)

text \<open>
  A backoff wait lasts as long as the timer runs it: with \<open>delayMs = 0\<close> the two waits before
  the third attempt are asked to last 0 ms and last 1 ms each.
\<close>

lemma retry_zero_delay_waits_one_ms:
  "waits (trace (snd (retry succeeds_on_third (Some (Options (Some 4) (Some 0))) world0))) = [0, 0]
   \<and> backoff_time (trace (snd (retry succeeds_on_third (Some (Options (Some 4) (Some 0))) world0)))
       = [1, 1]
   \<and> clock (snd (retry succeeds_on_third (Some (Options (Some 4) (Some 0))) world0)) = 452"
  by (simp add: retry_def world0_def retry_loop_rejected [where m = "''[unstable] failed (simulated)''"]
      retry_loop_fulfilled [where v = "\<lparr>name = ''unstable'', durationMs = 150, timestamp = 452\<rparr>"]
      succeeds_on_third_rejects succeeds_on_third_settledAt setTimeout_delay_def
      succeeds_on_third_def fakeIO_def sleep_def Let_def)







section \<open>The runner\<close>

lemma first_rejection_none:
  "\<forall>p \<in> set qs. \<exists>v. settledWith p = Fulfilled v \<Longrightarrow> first_rejection qs = None"
  by (induction qs) auto

lemma Promise_all_fulfils:
  assumes "\<And>p. p \<in> set ps \<Longrightarrow> \<exists>v. settledWith p = Fulfilled v"
  shows "Promise_all ps t =
           \<lparr>settledAt = fold max (map settledAt ps) t,
            settledWith = Fulfilled (fulfilled_results ps)\<rparr>"
proof -
  have "first_rejection (map ((!) ps) (completion_order ps t)) = None"
    using assms by (intro first_rejection_none) (simp add: set_completion_order)
  then show ?thesis
    by (simp add: Promise_all_def)
qed

text \<open>
  The loop of \<open>retry\<close> prints no opening line of a scenario, and when the factory rejects with
  \<open>Error\<close> objects only, so does the loop, unless it makes no attempt.
\<close>

lemma retry_loop_no_banner:
  assumes errs: "\<And>a t e. settledWith (fn a t) = Rejected e \<Longrightarrow> \<exists>m. e = Error m"
  shows "filter is_banner (trace (snd (retry_loop fn retries delayMs attempt le w)))
           = filter is_banner (trace w)
       \<and> (\<forall>e. fst (retry_loop fn retries delayMs attempt le w) = Rejected e \<longrightarrow>
             (e = le \<and> retries < attempt) \<or> (\<exists>m. e = Error m))"
proof (induction "nat (retries + 1 - attempt)" arbitrary: attempt le w)
  case 0
  then have "retries < attempt"
    by simp
  then show ?case
    by (simp add: retry_loop_exhausted)
next
  case (Suc n)
  then have le: "attempt \<le> retries"
    by simp
  show ?case
  proof (cases "settledWith (fn attempt (clock w))")
    case (Fulfilled v)
    with le show ?thesis
      by (simp add: retry_loop_fulfilled)
  next
    case (Rejected e)
    with errs obtain m where m: "settledWith (fn attempt (clock w)) = Rejected (Error m)"
      by blast
    have n: "n = nat (retries + 1 - (attempt + 1))"
      using Suc.hyps(2) by simp
    let ?w2 = "w\<lparr>clock := max (clock w) (settledAt (fn attempt (clock w)))
                      + setTimeout_delay (delayMs * attempt),
                trace := trace w @
                [Call_fn attempt,
                 Console_log [Str (''attempt '' @ number_toString attempt @ '' failed: '' @ m
                                   @ '' | waiting '' @ number_toString (delayMs * attempt) @ ''ms'')],
                 Sleep (delayMs * attempt) (setTimeout_delay (delayMs * attempt))]\<rparr>"
    have step: "retry_loop fn retries delayMs attempt le w
                  = retry_loop fn retries delayMs (attempt + 1) (Error m) ?w2"
      using le m by (rule retry_loop_rejected)
    have "filter is_banner (trace ?w2) = filter is_banner (trace w)"
      by simp
    with Suc.hyps(1) [OF n, of "Error m" ?w2] show ?thesis
      unfolding step by auto
  qed
qed

text \<open>Each scenario, on draws that are not negative: it fulfils, and prints its opening line once.\<close>

lemma demoPromiseChain_summary:
  "0 \<le> r1 \<Longrightarrow> 0 \<le> r2 \<Longrightarrow>
   fst (demoPromiseChain r1 r2 w) = Fulfilled ''final result from promise chain''
   \<and> filter is_banner (trace (snd (demoPromiseChain r1 r2 w)))
       = filter is_banner (trace w)
         @ [Console_log [Str ''\<newline>=== 1) Promise chain (then / catch / finally) ==='']]"
  by (simp add: demoPromiseChain_def Promise_finally_def Promise_catch_def Promise_then_def
      await_def fakeIO_fulfils console_log_def Let_def)

lemma demoAsyncAwait_summary:
  "0 \<le> r1 \<Longrightarrow> 0 \<le> r2 \<Longrightarrow>
   fst (demoAsyncAwait r1 r2 w) = Fulfilled ''final result from async/await''
   \<and> filter is_banner (trace (snd (demoAsyncAwait r1 r2 w)))
       = filter is_banner (trace w)
         @ [Console_log [Str ''\<newline>=== 2) async / await (try / catch) ==='']]"
  by (simp add: demoAsyncAwait_def await_def fakeIO_fulfils console_log_def Let_def)

lemma demoParallelAll_summary:
  assumes "0 \<le> r1" and "0 \<le> r2" and "0 \<le> r3"
  shows "fst (demoParallelAll r1 r2 r3 w) = Fulfilled ()
   \<and> filter is_banner (trace (snd (demoParallelAll r1 r2 r3 w)))
       = filter is_banner (trace w)
         @ [Console_log [Str ''\<newline>=== 3) Parallel execution with Promise.all ==='']]"
proof -
  let ?t = "clock w"
  let ?ps = "[fakeIO ''A'' 400 None r1 ?t, fakeIO ''B'' 300 None r2 ?t, fakeIO ''C'' 200 None r3 ?t]"
  have "Promise_all ?ps ?t =
          \<lparr>settledAt = fold max (map settledAt ?ps) ?t,
           settledWith = Fulfilled (fulfilled_results ?ps)\<rparr>"
    using assms by (intro Promise_all_fulfils) (auto simp: fakeIO_fulfils)
  then show ?thesis
    by (simp add: demoParallelAll_def await_def console_log_def Let_def)
qed

lemma demoAllSettled_summary:
  "fst (demoAllSettled r1 r2 r3 w) = Fulfilled ()
   \<and> filter is_banner (trace (snd (demoAllSettled r1 r2 r3 w)))
       = filter is_banner (trace w)
         @ [Console_log [Str ''\<newline>=== 4) Promise.allSettled (success + failure) ==='']]"
  by (simp add: demoAllSettled_run settled_line_def)

lemma demoRetry_summary:
  "fst (demoRetry rs w) = Fulfilled ()
   \<and> filter is_banner (trace (snd (demoRetry rs w)))
       = filter is_banner (trace w) @ [Console_log [Str ''\<newline>=== 7) Retry with backoff ==='']]"
proof -
  let ?w1 = "console_log [Str ''\<newline>=== 7) Retry with backoff ===''] w"
  let ?R = "retry_loop (\<lambda>attempt. fakeIO ''unstable'' 150 (Some literal_0_65) (rs attempt)) 4 150 1
              Undefined ?w1"
  have R: "filter is_banner (trace (snd ?R)) = filter is_banner (trace ?w1)
       \<and> (\<forall>e. fst ?R = Rejected e \<longrightarrow> (e = Undefined \<and> (4::int) < 1) \<or> (\<exists>m. e = Error m))"
    by (rule retry_loop_no_banner) (rule fakeIO_rejects_with_Error)
  obtain out w2 where eq: "?R = (out, w2)"
    by (cases ?R)
  from R have b: "filter is_banner (trace w2)
                    = filter is_banner (trace w)
                      @ [Console_log [Str ''\<newline>=== 7) Retry with backoff ==='']]"
    and e: "\<forall>e. out = Rejected e \<longrightarrow> (\<exists>m. e = Error m)"
    unfolding eq by (simp_all add: console_log_def)
  show ?thesis
  proof (cases out)
    case (Fulfilled v)
    with eq b show ?thesis
      by (simp add: demoRetry_def retry_def console_log_def)
  next
    case (Rejected e')
    with e obtain m where "out = Rejected (Error m)"
      by auto
    with eq b show ?thesis
      by (simp add: demoRetry_def retry_def console_log_def console_error_def)
  qed
qed

lemma demoPipeline_summary:
  assumes "0 \<le> r1" and "0 \<le> r2" and "0 \<le> r3" and "0 \<le> r4"
  shows "(\<exists>p. fst (demoPipeline r1 r2 r3 r4 w) = Fulfilled p)
   \<and> filter is_banner (trace (snd (demoPipeline r1 r2 r3 r4 w)))
       = filter is_banner (trace w)
         @ [Console_log [Str ''\<newline>=== 8) Pipeline: fetch -> process -> save ==='']]"
proof -
  let ?ps = "\<lambda>t. [fakeIO ''process-part-1'' 250 None r2 t, fakeIO ''process-part-2'' 300 None r3 t]"
  have "Promise_all (?ps t) t =
          \<lparr>settledAt = fold max (map settledAt (?ps t)) t,
           settledWith = Fulfilled (fulfilled_results (?ps t))\<rparr>" for t
    using assms by (intro Promise_all_fulfils) (auto simp: fakeIO_fulfils)
  then show ?thesis
    using assms by (simp add: demoPipeline_def await_def fakeIO_fulfils console_log_def Let_def)
qed

lemma demoPipeline_names:
  assumes "0 \<le> r1" and "0 \<le> r2" and "0 \<le> r3" and "0 \<le> r4"
  shows "\<exists>p. fst (demoPipeline r1 r2 r3 r4 w) = Fulfilled p
           \<and> name (fetched p) = ''fetch-data''
           \<and> map name (processed p) = [''process-part-1'', ''process-part-2'']
           \<and> name (saved p) = ''save''"
proof -
  let ?ps = "\<lambda>t. [fakeIO ''process-part-1'' 250 None r2 t, fakeIO ''process-part-2'' 300 None r3 t]"
  have "Promise_all (?ps t) t =
          \<lparr>settledAt = fold max (map settledAt (?ps t)) t,
           settledWith = Fulfilled (fulfilled_results (?ps t))\<rparr>" for t
    using assms by (intro Promise_all_fulfils) (auto simp: fakeIO_fulfils)
  then show ?thesis
    using assms by (simp add: demoPipeline_def await_def fakeIO_fulfils console_log_def Let_def)
qed

text \<open>
  Claim C7. \<open>Math.random()\<close> returns numbers \<open>r\<close> with \<open>0 \<le> r < 1\<close>. For every sequence of such
  draws, the runner runs the chain, sequential-await, parallel-all, settle-all, race, timeout,
  retry and pipeline scenarios, each exactly once and in this order, each started in the world
  that the one before it has left, and each of them fulfils: no rejection leaves a scenario
  and ends the run. The runner itself fulfils, in the world that the pipeline has left, after
  printing the pipeline's summary and the closing \<open>Done\<close> line, which is the last line of the
  run. So the opening lines that the run prints are those of the eight scenarios, each once
  and in this order.
\<close>

theorem main_runs_every_scenario_in_order:
  assumes "\<forall>i. 0 \<le> rnd i \<and> rnd i < 1"
  shows
    "let w1 = console_log [Str ''POC: Promises & async/await - Node.js''] w;
         chain_run = demoPromiseChain (rnd 0) (rnd 1) w1;
         w2 = console_log [Str ''chain return:'', Str ''final result from promise chain'']
                (snd chain_run);
         await_run = demoAsyncAwait (rnd 2) (rnd 3) w2;
         w3 = console_log [Str ''async/await return:'', Str ''final result from async/await'']
                (snd await_run);
         all_run = demoParallelAll (rnd 4) (rnd 5) (rnd 6) w3;
         settled_run = demoAllSettled (rnd 7) (rnd 8) (rnd 9) (snd all_run);
         race_run = demoRace (rnd 10) (rnd 11) (snd settled_run);
         timeout_run = demoTimeout (rnd 12) (snd race_run);
         retry_run = demoRetry (\<lambda>attempt. rnd (12 + nat attempt)) (snd timeout_run);
         pipeline_run = demoPipeline (rnd 17) (rnd 18) (rnd 19) (rnd 20) (snd retry_run);
         w4 = console_log
                [Str ''final pipeline result:'',
                 Summary ''fetch-data'' [''process-part-1'', ''process-part-2''] ''save'']
                (snd pipeline_run);
         w5 = console_log
                [Str (''\<newline>Done '' @ [CHR 0xC3, CHR 0xA2, CHR 0xC5, CHR 0x93, CHR 0xE2, CHR 0x80, CHR 0xA6])]
                w4
     in main rnd w = (Fulfilled (), w5)
      \<and> fst chain_run = Fulfilled ''final result from promise chain''
      \<and> fst await_run = Fulfilled ''final result from async/await''
      \<and> fst all_run = Fulfilled ()
      \<and> fst settled_run = Fulfilled ()
      \<and> fst race_run = Fulfilled ()
      \<and> fst timeout_run = Fulfilled ()
      \<and> fst retry_run = Fulfilled ()
      \<and> fulfilled (fst pipeline_run)
      \<and> filter is_banner (trace (snd (main rnd w))) =
           filter is_banner (trace w) @
           [Console_log [Str ''\<newline>=== 1) Promise chain (then / catch / finally) ===''],
            Console_log [Str ''\<newline>=== 2) async / await (try / catch) ===''],
            Console_log [Str ''\<newline>=== 3) Parallel execution with Promise.all ===''],
            Console_log [Str ''\<newline>=== 4) Promise.allSettled (success + failure) ===''],
            Console_log [Str ''\<newline>=== 5) Promise.race (first to finish) ===''],
            Console_log [Str ''\<newline>=== 6) Timeout (Promise.race + timer) ===''],
            Console_log [Str ''\<newline>=== 7) Retry with backoff ===''],
            Console_log [Str ''\<newline>=== 8) Pipeline: fetch -> process -> save ==='']]
      \<and> last (trace (snd (main rnd w)))
           = Console_log [Str (''\<newline>Done '' @ [CHR 0xC3, CHR 0xA2, CHR 0xC5, CHR 0x93, CHR 0xE2, CHR 0x80, CHR 0xA6])]"
proof -
  have r: "0 \<le> rnd i" for i
    using assms by simp
  obtain p where
    p: "\<And>w. fst (demoPipeline (rnd 17) (rnd 18) (rnd 19) (rnd 20) w) = Fulfilled (p w)
            \<and> name (fetched (p w)) = ''fetch-data''
            \<and> map name (processed (p w)) = [''process-part-1'', ''process-part-2'']
            \<and> name (saved (p w)) = ''save''"
    using demoPipeline_names [OF r r r r] by metis
  show ?thesis
    by (simp add: main_def case_prod_beta Let_def r p
        demoPromiseChain_summary demoAsyncAwait_summary demoParallelAll_summary
        demoAllSettled_summary demoRace_run demoTimeout_run demoRetry_summary
        demoPipeline_summary console_log_def)
qed

theorem main_runs_every_scenario_in_order_witness:
  "fst (main (\<lambda>i. 1 / 2) world0) = Fulfilled ()
   \<and> fst (demoPromiseChain (1 / 2) (1 / 2)
            (console_log [Str ''POC: Promises & async/await - Node.js''] world0))
       = Fulfilled ''final result from promise chain''
   \<and> filter is_banner (trace (snd (main (\<lambda>i. 1 / 2) world0))) =
       [Console_log [Str ''\<newline>=== 1) Promise chain (then / catch / finally) ===''],
        Console_log [Str ''\<newline>=== 2) async / await (try / catch) ===''],
        Console_log [Str ''\<newline>=== 3) Parallel execution with Promise.all ===''],
        Console_log [Str ''\<newline>=== 4) Promise.allSettled (success + failure) ===''],
        Console_log [Str ''\<newline>=== 5) Promise.race (first to finish) ===''],
        Console_log [Str ''\<newline>=== 6) Timeout (Promise.race + timer) ===''],
        Console_log [Str ''\<newline>=== 7) Retry with backoff ===''],
        Console_log [Str ''\<newline>=== 8) Pipeline: fetch -> process -> save ==='']]"
proof -
  have draws: "\<forall>i::nat. (0::real) \<le> (\<lambda>i. 1 / 2) i \<and> (\<lambda>i. 1 / 2 :: real) i < 1"
    by simp
  note run = main_runs_every_scenario_in_order [OF draws, of world0, unfolded Let_def]
  from run have "fst (main (\<lambda>i. 1 / 2) world0) = Fulfilled ()"
    by (elim conjE) (simp only: fst_conv)
  moreover from run have "fst (demoPromiseChain (1 / 2) (1 / 2)
            (console_log [Str ''POC: Promises & async/await - Node.js''] world0))
       = Fulfilled ''final result from promise chain''"
    by (elim conjE) assumption
  moreover from run have "filter is_banner (trace (snd (main (\<lambda>i. 1 / 2) world0))) =
       filter is_banner (trace world0) @
       [Console_log [Str ''\<newline>=== 1) Promise chain (then / catch / finally) ===''],
        Console_log [Str ''\<newline>=== 2) async / await (try / catch) ===''],
        Console_log [Str ''\<newline>=== 3) Parallel execution with Promise.all ===''],
        Console_log [Str ''\<newline>=== 4) Promise.allSettled (success + failure) ===''],
        Console_log [Str ''\<newline>=== 5) Promise.race (first to finish) ===''],
        Console_log [Str ''\<newline>=== 6) Timeout (Promise.race + timer) ===''],
        Console_log [Str ''\<newline>=== 7) Retry with backoff ===''],
        Console_log [Str ''\<newline>=== 8) Pipeline: fetch -> process -> save ==='']]"
    by (elim conjE) assumption
  ultimately show ?thesis
    by (simp add: world0_def)
qed

text \<open>The runner of the second file, likewise, with its six scenarios.\<close>

lemma main_part_000_runs_every_scenario_in_order:
  assumes "\<forall>i. 0 \<le> rnd i \<and> rnd i < 1"
  shows "fst (main_part_000 rnd w) = Fulfilled ()
       \<and> filter is_banner (trace (snd (main_part_000 rnd w))) =
           filter is_banner (trace w) @
           [Console_log [Str ''\<newline>=== 1) Promise chain (then / catch / finally) ===''],
            Console_log [Str ''\<newline>=== 2) async / await (try / catch) ===''],
            Console_log [Str ''\<newline>=== 3) Parallel execution with Promise.all ===''],
            Console_log [Str ''\<newline>=== 4) Promise.allSettled (success + failure) ===''],
            Console_log [Str ''\<newline>=== 5) Promise.race (first to finish) ===''],
            Console_log [Str ''\<newline>=== 6) Timeout (Promise.race + timer) ==='']]
       \<and> last (trace (snd (main_part_000 rnd w)))
           = Console_log [Str (''\<newline>Done '' @ [CHR 0xC3, CHR 0xA2, CHR 0xC5, CHR 0x93, CHR 0xE2, CHR 0x80, CHR 0xA6])]"
proof -
  have r: "0 \<le> rnd i" for i
    using assms by simp
  show ?thesis
    by (simp add: main_part_000_def case_prod_beta Let_def r
        demoPromiseChain_same demoAsyncAwait_same demoParallelAll_same demoAllSettled_same
        demoRace_same demoTimeout_same
        demoPromiseChain_summary demoAsyncAwait_summary demoParallelAll_summary
        demoAllSettled_summary demoRace_run demoTimeout_run console_log_def)
qed

end
